theory Spec2Isabelle
  imports Complex_Main "HOL-Library.Multiset"
begin

section \<open>The prospecting cost simulator of arco\_prices.py\<close>

text \<open>
  The engine of the program is two functions, \<^verbatim>\<open>calculate_tiered_cost\<close> and
  \<^verbatim>\<open>run_simulation\<close>, and the module-level loops that call the second one over a grid
  of rates. Python floats are idealised as the real numbers: every arithmetic step below is
  exact, so the theorems say nothing about binary rounding or NaN.
\<close>

subsection \<open>Data model\<close>

text \<open>
  A cell of a pandas DataFrame holds a number of an integer or of a floating dtype. The
  price tables of the source are built from Python literals, so the columns
  \<^verbatim>\<open>Minimo\<close> and \<^verbatim>\<open>Maximo\<close> start as integers (\<^verbatim>\<open>0\<close>, \<^verbatim>\<open>500\<close>) and
  \<^verbatim>\<open>Valor\<close> as floats (\<^verbatim>\<open>5.00\<close>).
\<close>

datatype cell = IntCell int | FloatCell real

fun cell_value :: "cell \<Rightarrow> real" where
  "cell_value (IntCell i) = real_of_int i"
| "cell_value (FloatCell x) = x"

text \<open>\<^verbatim>\<open>.astype(float)\<close> on one cell: the same number, now of the floating dtype.\<close>

fun astype_float :: "cell \<Rightarrow> cell" where
  "astype_float c = FloatCell (cell_value c)"

text \<open>
  One row of a tiered price table, with the three columns the docstring of
  \<^verbatim>\<open>calculate_tiered_cost\<close> requires. A table is the list of its rows, in index order.
\<close>

record row =
  Minimo :: cell
  Maximo :: cell
  Valor :: cell

type_synonym frame = "row list"

text \<open>Python's two-argument \<^verbatim>\<open>min\<close> and \<^verbatim>\<open>max\<close> return the first argument on a tie.\<close>

definition py_min :: "real \<Rightarrow> real \<Rightarrow> real" where
  "py_min a b = (if b < a then b else a)"

definition py_max :: "real \<Rightarrow> real \<Rightarrow> real" where
  "py_max a b = (if b > a then b else a)"


subsection \<open>calculate\_tiered\_cost (lines 17 to 43)\<close>

text \<open>
  Lines 26 to 28 assign the converted columns back into the DataFrame the caller passed;
  each of the three functions below is one of those assignments.
\<close>

definition astype_Minimo :: "frame \<Rightarrow> frame" where
  "astype_Minimo tiers_df = map (\<lambda>r. r\<lparr>Minimo := astype_float (Minimo r)\<rparr>) tiers_df"

definition astype_Maximo :: "frame \<Rightarrow> frame" where
  "astype_Maximo tiers_df = map (\<lambda>r. r\<lparr>Maximo := astype_float (Maximo r)\<rparr>) tiers_df"

definition astype_Valor :: "frame \<Rightarrow> frame" where
  "astype_Valor tiers_df = map (\<lambda>r. r\<lparr>Valor := astype_float (Valor r)\<rparr>) tiers_df"

text \<open>
  Line 30: \<^verbatim>\<open>sort_values(by="Minimo").reset_index(drop=True)\<close> builds a new frame, bound
  to the local name only. The sort of the model is stable; pandas does not promise that, and
  \<open>tier_loop_mset\<close> below shows that the cost does not depend on how ties are ordered.
\<close>

definition sort_values :: "frame \<Rightarrow> frame" where
  "sort_values tiers_df = sort_key (\<lambda>r. cell_value (Minimo r)) tiers_df"

text \<open>The body of the loop of lines 34 to 41, for one row.\<close>

definition tier_step :: "real \<Rightarrow> real \<Rightarrow> row \<Rightarrow> real" where
  "tier_step quantity total_cost r =
     (let min_val = cell_value (Minimo r);
          max_val = cell_value (Maximo r);
          price = cell_value (Valor r)
      in if quantity > min_val
         then (let items_in_tier = py_min quantity max_val - min_val;
                   cost_in_tier = items_in_tier * price
               in total_cost + cost_in_tier)
         else total_cost)"

definition tier_loop :: "real \<Rightarrow> frame \<Rightarrow> real" where
  "tier_loop quantity rows = foldl (tier_step quantity) 0 rows"

text \<open>
  The function returns the cost and leaves the caller's table converted in place; the model
  returns the pair of the cost and the table as the caller finds it afterwards. With
  \<^verbatim>\<open>quantity == 0\<close> the function returns before line 26 and touches nothing.
\<close>

definition calculate_tiered_cost :: "real \<Rightarrow> frame \<Rightarrow> real \<times> frame" where
  "calculate_tiered_cost quantity tiers_df =
     (if quantity = 0 then (0, tiers_df)
      else (let converted = astype_Valor (astype_Maximo (astype_Minimo tiers_df))
            in (tier_loop quantity (sort_values converted), converted)))"

subsection \<open>Errors, rates, tables and results\<close>

text \<open>
  The source raises nothing itself. What can raise is \<^verbatim>\<open>.iloc[0]\<close> on a table without
  rows and the two divisions of lines 73 and 74.
\<close>

datatype error = IndexError | ZeroDivisionError

definition iloc0 :: "'a list \<Rightarrow> error + 'a" where
  "iloc0 xs = (case xs of [] \<Rightarrow> Inl IndexError | x # _ \<Rightarrow> Inr x)"

definition py_truediv :: "real \<Rightarrow> real \<Rightarrow> error + real" where
  "py_truediv a b = (if b = 0 then Inl ZeroDivisionError else Inr (a / b))"

text \<open>The dictionary \<^verbatim>\<open>rates\<close> (lines 249 to 253); the engine only reads it.\<close>

record rates =
  response :: real
  qualification :: real
  booking :: real

text \<open>
  The dictionary \<^verbatim>\<open>pricing_tables\<close> (lines 254 to 259). The table for leads without a
  reply has the single column \<^verbatim>\<open>Valor\<close>, so it is the list of that column's cells. The
  field for the key \<^verbatim>\<open>qualified\<close> is named \<open>qualified_t\<close>, the plain word being
  reserved. The four tables are four DataFrame objects of their own, as the source builds them, so the
  record holds each by value and a function that converts one in place returns the record
  with that field replaced.
\<close>

record pricing_tables =
  no_reply :: "cell list"
  leads :: frame
  qualified_t :: frame
  booked :: frame

text \<open>The dictionary \<^verbatim>\<open>run_simulation\<close> returns (lines 76 to 90).\<close>

record sim_result =
  total_leads :: real
  num_no_replies :: real
  num_replies :: real
  num_qualified :: real
  num_booked :: real
  cost_no_reply :: real
  cost_replies :: real
  cost_qualified :: real
  cost_booked :: real
  calculated_cost :: real
  total_cost :: real
  cpl :: real
  cpa :: real

subsection \<open>run\_simulation (lines 46 to 90)\<close>

text \<open>
  The result is the dictionary, or the error raised, together with the tables as the calls
  of \<^verbatim>\<open>calculate_tiered_cost\<close> left them. Line 58 is the first statement that can
  raise, before any table is touched. The parameters are bound by a lambda because the
  result record has a field named \<open>total_leads\<close> too.
\<close>

definition run_simulation ::
  "real \<Rightarrow> rates \<Rightarrow> pricing_tables \<Rightarrow> real \<Rightarrow> (error + sim_result) \<times> pricing_tables" where
  "run_simulation = (\<lambda>total_leads rates pricing_tables minimum_billing.
     (let num_replies = total_leads * response rates;
          num_no_replies = total_leads - num_replies;
          num_qualified = num_replies * qualification rates;
          num_booked = num_qualified * booking rates
      in case iloc0 (no_reply pricing_tables) of
           Inl e \<Rightarrow> (Inl e, pricing_tables)
         | Inr row0 \<Rightarrow>
            (let cost_no_reply = num_no_replies * cell_value row0;
                 (cost_replies, leads_df) =
                    calculate_tiered_cost num_replies (leads pricing_tables);
                 (cost_qualified, qualified_df) =
                    calculate_tiered_cost num_qualified (qualified_t pricing_tables);
                 (cost_booked, booked_df) =
                    calculate_tiered_cost num_booked (booked pricing_tables);
                 tables = pricing_tables\<lparr>leads := leads_df, qualified_t := qualified_df,
                    booked := booked_df\<rparr>;
                 calculated_cost = cost_no_reply + cost_replies + cost_qualified + cost_booked;
                 total_cost = py_max calculated_cost minimum_billing
             in case (if total_leads > 0 then py_truediv total_cost total_leads else Inr 0) of
                  Inl e \<Rightarrow> (Inl e, tables)
                | Inr cpl_value \<Rightarrow>
                   (case (if num_booked > 0 then py_truediv total_cost num_booked else Inr 0) of
                      Inl e \<Rightarrow> (Inl e, tables)
                    | Inr cpa_value \<Rightarrow>
                       (Inr \<lparr>total_leads = total_leads,
                             num_no_replies = num_no_replies,
                             num_replies = num_replies,
                             num_qualified = num_qualified,
                             num_booked = num_booked,
                             cost_no_reply = cost_no_reply,
                             cost_replies = cost_replies,
                             cost_qualified = cost_qualified,
                             cost_booked = cost_booked,
                             calculated_cost = calculated_cost,
                             total_cost = total_cost,
                             cpl = cpl_value,
                             cpa = cpa_value\<rparr>, tables)))))"

subsection \<open>The sensitivity matrices (lines 682 to 708)\<close>

text \<open>Python's \<^verbatim>\<open>range(start, stop, step)\<close> for a step above zero, the only use here.\<close>

function py_range :: "int \<Rightarrow> int \<Rightarrow> int \<Rightarrow> int list" where
  "py_range start stop step =
     (if 0 < step \<and> start < stop then start # py_range (start + step) stop step else [])"
  by pat_completeness auto
termination
  by (relation "measure (\<lambda>(start, stop, step). nat (stop - start))") auto

declare py_range.simps [simp del]

definition qual_rates_heatmap :: "real list" where
  "qual_rates_heatmap = map (\<lambda>i. real_of_int i / 100) (py_range 0 36 5)"

definition booking_rates_heatmap :: "real list" where
  "booking_rates_heatmap = map (\<lambda>i. real_of_int i / 100) (py_range 0 51 5)"

record matrices =
  cost_matrix :: "real list list"
  cpa_matrix :: "real list list"
  meetings_matrix :: "real list list"

text \<open>
  The inner loop of lines 696 to 705, over the booking rates still to come: each cell runs
  the simulation on a copy of \<^verbatim>\<open>rates\<close> with two keys replaced, on the tables as the
  cell before left them.
\<close>

fun heatmap_row ::
  "real \<Rightarrow> rates \<Rightarrow> real \<Rightarrow> real \<Rightarrow> real list \<Rightarrow> real list \<times> real list \<times> real list
     \<Rightarrow> pricing_tables \<Rightarrow> (error + real list \<times> real list \<times> real list) \<times> pricing_tables" where
  "heatmap_row target_total_leads rates minimum_billing qual_rate [] acc pricing_tables =
     (Inr acc, pricing_tables)"
| "heatmap_row target_total_leads rates minimum_billing qual_rate (book_rate # book_rates)
       (cost_row, cpa_row, meetings_row) pricing_tables =
     (let temp_rates = rates\<lparr>qualification := qual_rate, booking := book_rate\<rparr>
      in case run_simulation target_total_leads temp_rates pricing_tables minimum_billing of
           (Inl e, tables) \<Rightarrow> (Inl e, tables)
         | (Inr sim_result, tables) \<Rightarrow>
             heatmap_row target_total_leads rates minimum_billing qual_rate book_rates
               (cost_row @ [total_cost sim_result],
                cpa_row @ [if cpa sim_result > 0 then cpa sim_result else 0],
                meetings_row @ [num_booked sim_result])
               tables)"

text \<open>The outer loop of lines 692 to 708, over the qualification rates still to come.\<close>

fun heatmap_rows ::
  "real \<Rightarrow> rates \<Rightarrow> real \<Rightarrow> real list \<Rightarrow> real list \<Rightarrow> matrices
     \<Rightarrow> pricing_tables \<Rightarrow> (error + matrices) \<times> pricing_tables" where
  "heatmap_rows target_total_leads rates minimum_billing [] book_rates m pricing_tables =
     (Inr m, pricing_tables)"
| "heatmap_rows target_total_leads rates minimum_billing (qual_rate # qual_rates) book_rates m
       pricing_tables =
     (case heatmap_row target_total_leads rates minimum_billing qual_rate book_rates
             ([], [], []) pricing_tables of
        (Inl e, tables) \<Rightarrow> (Inl e, tables)
      | (Inr (cost_row, cpa_row, meetings_row), tables) \<Rightarrow>
          heatmap_rows target_total_leads rates minimum_billing qual_rates book_rates
            (m\<lparr>cost_matrix := cost_matrix m @ [cost_row],
               cpa_matrix := cpa_matrix m @ [cpa_row],
               meetings_matrix := meetings_matrix m @ [meetings_row]\<rparr>)
            tables)"

definition sensitivity_matrices ::
  "real \<Rightarrow> rates \<Rightarrow> pricing_tables \<Rightarrow> real \<Rightarrow> (error + matrices) \<times> pricing_tables" where
  "sensitivity_matrices target_total_leads rates pricing_tables minimum_billing =
     heatmap_rows target_total_leads rates minimum_billing qual_rates_heatmap
       booking_rates_heatmap \<lparr>cost_matrix = [], cpa_matrix = [], meetings_matrix = []\<rparr>
       pricing_tables"

subsection \<open>The tables of the source (lines 188 to 238)\<close>

definition df_no_reply :: "cell list" where
  "df_no_reply = [FloatCell (20 / 100)]"

definition df_leads :: frame where
  "df_leads =
     [\<lparr>Minimo = IntCell 0, Maximo = IntCell 500, Valor = FloatCell 5\<rparr>,
      \<lparr>Minimo = IntCell 500, Maximo = IntCell 1500, Valor = FloatCell (380 / 100)\<rparr>,
      \<lparr>Minimo = IntCell 1500, Maximo = IntCell 2000, Valor = FloatCell 3\<rparr>,
      \<lparr>Minimo = IntCell 2000, Maximo = IntCell 3000, Valor = FloatCell (240 / 100)\<rparr>,
      \<lparr>Minimo = IntCell 3000, Maximo = IntCell 99999, Valor = FloatCell 2\<rparr>]"

definition df_qualified :: frame where
  "df_qualified =
     [\<lparr>Minimo = IntCell 0, Maximo = IntCell 50, Valor = FloatCell 20\<rparr>,
      \<lparr>Minimo = IntCell 50, Maximo = IntCell 100, Valor = FloatCell 15\<rparr>,
      \<lparr>Minimo = IntCell 100, Maximo = IntCell 150, Valor = FloatCell 10\<rparr>,
      \<lparr>Minimo = IntCell 150, Maximo = IntCell 99999, Valor = FloatCell 5\<rparr>]"

definition df_booked :: frame where
  "df_booked =
     [\<lparr>Minimo = IntCell 0, Maximo = IntCell 20, Valor = FloatCell 100\<rparr>,
      \<lparr>Minimo = IntCell 20, Maximo = IntCell 50, Valor = FloatCell 80\<rparr>,
      \<lparr>Minimo = IntCell 50, Maximo = IntCell 100, Valor = FloatCell 60\<rparr>,
      \<lparr>Minimo = IntCell 100, Maximo = IntCell 99999, Valor = FloatCell 50\<rparr>]"

definition source_tables :: pricing_tables where
  "source_tables = \<lparr>no_reply = df_no_reply, leads = df_leads, qualified_t = df_qualified,
     booked = df_booked\<rparr>"

subsection \<open>Notions used to state the properties\<close>

text \<open>What one tier adds to the cost of a quantity above its minimum.\<close>

definition tier_charge :: "real \<Rightarrow> row \<Rightarrow> real" where
  "tier_charge q r =
     (min q (cell_value (Maximo r)) - cell_value (Minimo r)) * cell_value (Valor r)"

text \<open>A row after lines 26 to 28, and a table with all three columns converted.\<close>

definition convert_row :: "row \<Rightarrow> row" where
  "convert_row r = \<lparr>Minimo = astype_float (Minimo r), Maximo = astype_float (Maximo r),
     Valor = astype_float (Valor r)\<rparr>"

definition converted :: "frame \<Rightarrow> frame" where
  "converted tiers_df = astype_Valor (astype_Maximo (astype_Minimo tiers_df))"

text \<open>The numbers a table holds, whatever the dtype of its columns.\<close>

definition numbers :: "frame \<Rightarrow> (real \<times> real \<times> real) list" where
  "numbers tiers_df =
     map (\<lambda>r. (cell_value (Minimo r), cell_value (Maximo r), cell_value (Valor r))) tiers_df"

definition table_numbers ::
  "pricing_tables \<Rightarrow> cell list \<times> (real \<times> real \<times> real) list \<times> (real \<times> real \<times> real) list
     \<times> (real \<times> real \<times> real) list" where
  "table_numbers pt = (no_reply pt, numbers (leads pt), numbers (qualified_t pt), numbers (booked pt))"

text \<open>The first two tiers of the table for leads that replied (lines 196 and 197).\<close>

definition df_leads_two :: frame where
  "df_leads_two =
     [\<lparr>Minimo = IntCell 0, Maximo = IntCell 500, Valor = FloatCell 5\<rparr>,
      \<lparr>Minimo = IntCell 500, Maximo = IntCell 1500, Valor = FloatCell (38 / 10)\<rparr>]"

text \<open>The flat unit price: the \<^verbatim>\<open>Valor\<close> of the first row of the no-reply table.\<close>

definition unit_price :: "pricing_tables \<Rightarrow> real" where
  "unit_price pt = (case no_reply pt of [] \<Rightarrow> 0 | c # _ \<Rightarrow> cell_value c)"

text \<open>The value \<^verbatim>\<open>calculate_tiered_cost\<close> returns, without the table.\<close>

definition tier_cost :: "real \<Rightarrow> frame \<Rightarrow> real" where
  "tier_cost q tiers_df = fst (calculate_tiered_cost q tiers_df)"

text \<open>The dictionary a run returns when the no-reply table has a first row, written as one
  record; \<open>run_simulation_rows\<close> proves that this is what the code computes.\<close>

definition simulate :: "real \<Rightarrow> rates \<Rightarrow> pricing_tables \<Rightarrow> real \<Rightarrow> sim_result" where
  "simulate vol rates pt mb =
     (let nr = vol * response rates;
          nn = vol - nr;
          nq = nr * qualification rates;
          nb = nq * booking rates;
          c0 = nn * unit_price pt;
          c1 = tier_cost nr (leads pt);
          c2 = tier_cost nq (qualified_t pt);
          c3 = tier_cost nb (booked pt);
          calc = c0 + c1 + c2 + c3;
          tot = max calc mb
      in \<lparr>total_leads = vol, num_no_replies = nn, num_replies = nr, num_qualified = nq,
          num_booked = nb, cost_no_reply = c0, cost_replies = c1, cost_qualified = c2,
          cost_booked = c3, calculated_cost = calc, total_cost = tot,
          cpl = (if 0 < vol then tot / vol else 0),
          cpa = (if 0 < nb then tot / nb else 0)\<rparr>)"

text \<open>The three tiered tables as one run leaves them.\<close>

definition tables_after :: "real \<Rightarrow> rates \<Rightarrow> pricing_tables \<Rightarrow> pricing_tables" where
  "tables_after vol rates pt =
     pt\<lparr>leads := snd (calculate_tiered_cost (vol * response rates) (leads pt)),
        qualified_t := snd (calculate_tiered_cost (vol * response rates * qualification rates)
           (qualified_t pt)),
        booked := snd (calculate_tiered_cost
           (vol * response rates * qualification rates * booking rates) (booked pt))\<rparr>"

text \<open>Rates under which nobody replies, for a run whose whole cost is the no-reply charge.\<close>

definition rates_no_response :: rates where
  "rates_no_response = \<lparr>response = 0, qualification = 25 / 100, booking = 33 / 100\<rparr>"

text \<open>The rates the sliders start with (lines 139, 152 and 165, each divided by 100).\<close>

definition rates_scenario_B :: rates where
  "rates_scenario_B = \<lparr>response = 15 / 100, qualification = 25 / 100, booking = 33 / 100\<rparr>"

text \<open>A single tier from 100 to 500 at 5.00: a table whose first tier does not start at zero.\<close>

definition row_from_100 :: row where
  "row_from_100 = \<lparr>Minimo = IntCell 100, Maximo = IntCell 500, Valor = FloatCell 5\<rparr>"

text \<open>The table of that one tier.\<close>

definition tiers_from_100 :: frame where
  "tiers_from_100 = [row_from_100]"

text \<open>A tier from 100 to 600 at 3.00, overlapping the first tier of the source.\<close>

definition row_overlap :: row where
  "row_overlap = \<lparr>Minimo = IntCell 100, Maximo = IntCell 600, Valor = FloatCell 3\<rparr>"

text \<open>The first tier of the table for leads that replied (line 196).\<close>

definition row_first :: row where
  "row_first = \<lparr>Minimo = IntCell 0, Maximo = IntCell 500, Valor = FloatCell 5\<rparr>"

text \<open>A table of two overlapping tiers.\<close>

definition tiers_overlap :: frame where
  "tiers_overlap = [row_first, row_overlap]"

text \<open>A tier whose maximum lies below its minimum; nothing in the source refuses it.\<close>

definition row_inverted :: row where
  "row_inverted = \<lparr>Minimo = IntCell 500, Maximo = IntCell 100, Valor = FloatCell 1\<rparr>"

text \<open>The table of that one tier.\<close>

definition tiers_inverted :: frame where
  "tiers_inverted = [row_inverted]"

text \<open>What one tier adds to the running total in one pass of the loop.\<close>

definition tier_part :: "real \<Rightarrow> row \<Rightarrow> real" where
  "tier_part q r = (if cell_value (Minimo r) < q then tier_charge q r else 0)"

text \<open>The tables of the source with a no-reply table that has no row.\<close>

definition tables_empty_no_reply :: pricing_tables where
  "tables_empty_no_reply = source_tables\<lparr>no_reply := []\<rparr>"

text \<open>The tables of the source with the inverted tier as the table for leads that replied.\<close>

definition tables_inverted :: pricing_tables where
  "tables_inverted = source_tables\<lparr>leads := tiers_inverted\<rparr>"

text \<open>What one cell of the grid runs: the simulation on a copy of the rates with the qualification
  and booking rates replaced, on given tables.\<close>

definition cell_simulation ::
  "real \<Rightarrow> rates \<Rightarrow> pricing_tables \<Rightarrow> real \<Rightarrow> real \<Rightarrow> real \<Rightarrow> error + sim_result" where
  "cell_simulation vol rates pt mb qual_rate book_rate =
     fst (run_simulation vol (rates\<lparr>qualification := qual_rate, booking := book_rate\<rparr>) pt mb)"

section \<open>Properties\<close>

subsection \<open>The loop as a sum\<close>

lemma py_min_eq: "py_min a b = min a b"
  by (simp add: py_min_def min_def)

lemma py_max_eq: "py_max a b = max a b"
  by (simp add: py_max_def max_def)

lemma tier_step_eq:
  "tier_step q acc r = acc + (if cell_value (Minimo r) < q then tier_charge q r else 0)"
  by (simp add: tier_step_def tier_charge_def py_min_eq Let_def)

lemma foldl_tier_step:
  "foldl (tier_step q) acc rows =
     acc + (\<Sum>r\<leftarrow>filter (\<lambda>r. cell_value (Minimo r) < q) rows. tier_charge q r)"
proof (induction rows arbitrary: acc)
  case Nil
  show ?case by simp
next
  case (Cons r rows)
  have "foldl (tier_step q) acc (r # rows) = foldl (tier_step q) (tier_step q acc r) rows"
    by simp
  also have "\<dots> = tier_step q acc r
      + (\<Sum>r\<leftarrow>filter (\<lambda>r. cell_value (Minimo r) < q) rows. tier_charge q r)"
    by (rule Cons.IH)
  also have "\<dots> = acc
      + (\<Sum>r\<leftarrow>filter (\<lambda>r. cell_value (Minimo r) < q) (r # rows). tier_charge q r)"
    by (simp add: tier_step_eq)
  finally show ?case .
qed

lemma tier_loop_sum:
  "tier_loop q rows = (\<Sum>r\<leftarrow>filter (\<lambda>r. cell_value (Minimo r) < q) rows. tier_charge q r)"
  by (simp add: tier_loop_def foldl_tier_step)

lemma tier_loop_mset:
  assumes "mset rows = mset rows'"
  shows "tier_loop q rows = tier_loop q rows'"
proof -
  let ?P = "\<lambda>r. cell_value (Minimo r) < q"
  have "mset (map (tier_charge q) (filter ?P rows)) = mset (map (tier_charge q) (filter ?P rows'))"
    using assms by (metis mset_filter mset_map)
  then have "sum_mset (mset (map (tier_charge q) (filter ?P rows)))
      = sum_mset (mset (map (tier_charge q) (filter ?P rows')))"
    by simp
  then show ?thesis
    by (simp only: tier_loop_sum sum_mset_sum_list)
qed

subsection \<open>The conversion keeps every number\<close>

lemma converted_map: "converted tiers_df = map convert_row tiers_df"
  by (simp add: converted_def astype_Valor_def astype_Maximo_def astype_Minimo_def
      convert_row_def comp_def)

lemma convert_row_values [simp]:
  "cell_value (Minimo (convert_row r)) = cell_value (Minimo r)"
  "cell_value (Maximo (convert_row r)) = cell_value (Maximo r)"
  "cell_value (Valor (convert_row r)) = cell_value (Valor r)"
  by (simp_all add: convert_row_def)

lemma tier_charge_convert [simp]: "tier_charge q (convert_row r) = tier_charge q r"
  by (simp add: tier_charge_def)

lemma tier_loop_converted: "tier_loop q (map convert_row rows) = tier_loop q rows"
  by (simp add: tier_loop_sum filter_map comp_def)

lemma sort_values_convert:
  "sort_values (map convert_row rows) = map convert_row (sort_values rows)"
proof -
  have ins: "insort_key (\<lambda>r. cell_value (Minimo r)) (convert_row x) (map convert_row ys)
      = map convert_row (insort_key (\<lambda>r. cell_value (Minimo r)) x ys)" for x ys
    by (induction ys) simp_all
  show ?thesis
    unfolding sort_values_def by (induction rows) (simp_all add: ins)
qed

lemma cost_sorted:
  "q \<noteq> 0 \<Longrightarrow> fst (calculate_tiered_cost q tiers_df) = tier_loop q (sort_values tiers_df)"
  by (simp add: calculate_tiered_cost_def converted_def [symmetric] converted_map
      sort_values_convert tier_loop_converted Let_def)

lemma cost_unsorted:
  "q \<noteq> 0 \<Longrightarrow> fst (calculate_tiered_cost q tiers_df) = tier_loop q tiers_df"
  by (simp add: cost_sorted sort_values_def tier_loop_mset [of "sort_key _ tiers_df" tiers_df])

lemma frame_after:
  "snd (calculate_tiered_cost q tiers_df) = (if q = 0 then tiers_df else map convert_row tiers_df)"
  by (simp add: calculate_tiered_cost_def converted_def [symmetric] converted_map Let_def)

subsection \<open>One run of the simulation\<close>

lemma run_simulation_empty:
  "no_reply pt = [] \<Longrightarrow> run_simulation vol rates pt mb = (Inl IndexError, pt)"
  by (simp add: run_simulation_def iloc0_def Let_def)

lemma run_simulation_rows:
  "no_reply pt = c # cs \<Longrightarrow>
   run_simulation vol rates pt mb = (Inr (simulate vol rates pt mb), tables_after vol rates pt)"
  by (simp add: run_simulation_def iloc0_def Let_def simulate_def tables_after_def
      unit_price_def tier_cost_def py_truediv_def py_max_eq case_prod_unfold)

lemma tier_cost_loop: "tier_cost q tiers_df = (if q = 0 then 0 else tier_loop q tiers_df)"
  by (simp add: tier_cost_def cost_unsorted) (simp add: calculate_tiered_cost_def)

lemma tier_loop_numbers:
  "tier_loop q tiers_df =
     (\<Sum>(mn, mx, p)\<leftarrow>numbers tiers_df. if mn < q then (min q mx - mn) * p else 0)"
  unfolding tier_loop_def numbers_def
proof -
  have "foldl (tier_step q) acc tiers_df = acc +
     (\<Sum>(mn, mx, p)\<leftarrow>map (\<lambda>r. (cell_value (Minimo r), cell_value (Maximo r), cell_value (Valor r))) tiers_df. if mn < q then (min q mx - mn) * p else 0)" for acc
    by (induction tiers_df arbitrary: acc) (simp_all add: tier_step_eq tier_charge_def)
  then show "foldl (tier_step q) 0 tiers_df =
     (\<Sum>(mn, mx, p)\<leftarrow>map (\<lambda>r. (cell_value (Minimo r), cell_value (Maximo r), cell_value (Valor r))) tiers_df. if mn < q then (min q mx - mn) * p else 0)"
    by simp
qed

lemma tier_cost_numbers:
  "numbers a = numbers b \<Longrightarrow> tier_cost q a = tier_cost q b"
  by (simp add: tier_cost_loop tier_loop_numbers)

lemma numbers_after: "numbers (snd (calculate_tiered_cost q tiers_df)) = numbers tiers_df"
  by (simp add: frame_after numbers_def comp_def)

lemma simulate_numbers:
  "table_numbers pt = table_numbers pt' \<Longrightarrow> simulate vol rates pt mb = simulate vol rates pt' mb"
  by (simp add: table_numbers_def simulate_def unit_price_def
      tier_cost_numbers [of "leads pt" "leads pt'"]
      tier_cost_numbers [of "qualified_t pt" "qualified_t pt'"]
      tier_cost_numbers [of "booked pt" "booked pt'"])

lemma table_numbers_after: "table_numbers (tables_after vol rates pt) = table_numbers pt"
  by (simp add: table_numbers_def tables_after_def numbers_after)

lemma source_tables_rows: "no_reply source_tables = FloatCell (20 / 100) # []"
  by (simp add: source_tables_def df_no_reply_def)

lemma no_reply_upd_rows: "no_reply (pt\<lparr>no_reply := c # cs\<rparr>) = c # cs"
  by simp

lemma source_tables_upd: "source_tables\<lparr>no_reply := [FloatCell (20 / 100)]\<rparr> = source_tables"
  by (simp add: source_tables_def df_no_reply_def)

subsection \<open>What one tier contributes\<close>

lemma tier_loop_parts: "tier_loop q rows = (\<Sum>r\<leftarrow>rows. tier_part q r)"
proof -
  have "foldl (tier_step q) acc rows = acc + (\<Sum>r\<leftarrow>rows. tier_part q r)" for acc
    by (induction rows arbitrary: acc) (simp_all add: tier_step_eq tier_part_def)
  then show ?thesis by (simp add: tier_loop_def)
qed

lemma tier_part_nonneg:
  assumes "0 \<le> cell_value (Valor r)" and "cell_value (Minimo r) \<le> cell_value (Maximo r)"
  shows "0 \<le> tier_part q r"
  using assms by (simp add: tier_part_def tier_charge_def)

lemma tier_part_mono:
  assumes "0 \<le> cell_value (Valor r)" and "cell_value (Minimo r) \<le> cell_value (Maximo r)"
    and "q1 \<le> q2"
  shows "tier_part q1 r \<le> tier_part q2 r"
proof (cases "cell_value (Minimo r) < q1")
  case True
  then have "cell_value (Minimo r) < q2" using assms(3) by simp
  moreover have "min q1 (cell_value (Maximo r)) \<le> min q2 (cell_value (Maximo r))"
    using assms(3) by (simp add: min_le_iff_disj)
  ultimately show ?thesis
    using True assms(1) by (simp add: tier_part_def tier_charge_def mult_right_mono)
next
  case False
  then show ?thesis
    using tier_part_nonneg [OF assms(1,2), of q2] by (simp add: tier_part_def)
qed

subsection \<open>No validation, and what a run leaves behind\<close>

lemma negative_quantity_cost:
  assumes "q < 0" and "\<forall>r\<in>set tiers_df. 0 \<le> cell_value (Minimo r)"
  shows "fst (calculate_tiered_cost q tiers_df) = 0"
proof -
  have "(\<Sum>r\<leftarrow>tiers_df. tier_part q r) = 0"
    using assms by (induction tiers_df) (auto simp: tier_part_def)
  then show ?thesis using assms(1) by (simp add: cost_unsorted tier_loop_parts)
qed

lemma run_simulation_errors:
  "fst (run_simulation vol rates pt mb) = Inl e \<Longrightarrow> e = IndexError \<and> no_reply pt = []"
  by (cases "no_reply pt") (simp_all add: run_simulation_empty run_simulation_rows)

subsection \<open>The grid of simulations\<close>

lemma simulate_cpa:
  "cpa (simulate vol rates pt mb) =
     (if 0 < num_booked (simulate vol rates pt mb)
      then total_cost (simulate vol rates pt mb) / num_booked (simulate vol rates pt mb) else 0)"
  unfolding simulate_def Let_def by (simp only: sim_result.simps)

lemma simulate_total_ge: "mb \<le> total_cost (simulate vol rates pt mb)"
  unfolding simulate_def Let_def by (simp only: sim_result.simps max.cobounded2)

lemma simulate_cpa_nonneg:
  assumes "0 \<le> mb"
  shows "0 \<le> cpa (simulate vol rates pt mb)"
proof (cases "0 < num_booked (simulate vol rates pt mb)")
  case True
  have "0 \<le> total_cost (simulate vol rates pt mb)"
    using assms simulate_total_ge [of mb vol rates pt] by (rule order_trans)
  then have "0 \<le> total_cost (simulate vol rates pt mb) / num_booked (simulate vol rates pt mb)"
    using True by (rule divide_nonneg_pos)
  then show ?thesis using True by (simp only: simulate_cpa if_True)
next
  case False
  then show ?thesis by (simp only: simulate_cpa if_False order_refl)
qed

lemma cell_simulation_rows:
  "no_reply pt = c # cs \<Longrightarrow>
   cell_simulation vol rates pt mb q b
     = Inr (simulate vol (rates\<lparr>qualification := q, booking := b\<rparr>) pt mb)"
  by (simp add: cell_simulation_def run_simulation_rows)

lemma no_reply_numbers:
  "table_numbers pt = table_numbers pt0 \<Longrightarrow> no_reply pt = no_reply pt0"
  by (simp add: table_numbers_def)

lemma heatmap_row_step:
  assumes "table_numbers pt = table_numbers pt0" and "no_reply pt0 = c # cs" and "0 \<le> mb"
  shows "heatmap_row vol rates mb q (b # bs) (cr, pr, mr) pt =
     heatmap_row vol rates mb q bs
       (cr @ [total_cost (projr (cell_simulation vol rates pt0 mb q b))],
        pr @ [cpa (projr (cell_simulation vol rates pt0 mb q b))],
        mr @ [num_booked (projr (cell_simulation vol rates pt0 mb q b))])
       (tables_after vol (rates\<lparr>qualification := q, booking := b\<rparr>) pt)"
proof -
  let ?r = "rates\<lparr>qualification := q, booking := b\<rparr>"
  have rows: "no_reply pt = c # cs"
    using no_reply_numbers [OF assms(1)] assms(2) by (rule trans)
  have run: "run_simulation vol ?r pt mb = (Inr (simulate vol ?r pt0 mb), tables_after vol ?r pt)"
    unfolding run_simulation_rows [OF rows] simulate_numbers [OF assms(1)] by (rule refl)
  have cell: "projr (cell_simulation vol rates pt0 mb q b) = simulate vol ?r pt0 mb"
    by (simp only: cell_simulation_rows [OF assms(2)] sum.sel)
  have cpa0: "(if cpa (simulate vol ?r pt0 mb) > 0 then cpa (simulate vol ?r pt0 mb) else 0)
      = cpa (simulate vol ?r pt0 mb)"
    using simulate_cpa_nonneg [OF assms(3), of vol ?r pt0] by simp
  show ?thesis
    unfolding cell heatmap_row.simps Let_def run by (simp only: prod.case sum.case cpa0)
qed

lemma heatmap_row_cells:
  assumes "table_numbers pt = table_numbers pt0" and "no_reply pt0 = c # cs" and "0 \<le> mb"
  shows "fst (heatmap_row vol rates mb q bs (cr, pr, mr) pt) =
      Inr (cr @ map (\<lambda>b. total_cost (projr (cell_simulation vol rates pt0 mb q b))) bs,
           pr @ map (\<lambda>b. cpa (projr (cell_simulation vol rates pt0 mb q b))) bs,
           mr @ map (\<lambda>b. num_booked (projr (cell_simulation vol rates pt0 mb q b))) bs)
    \<and> table_numbers (snd (heatmap_row vol rates mb q bs (cr, pr, mr) pt)) = table_numbers pt0"
  using assms(1)
proof (induction bs arbitrary: cr pr mr pt)
  case Nil
  then show ?case by simp
next
  case (Cons b bs)
  let ?r = "rates\<lparr>qualification := q, booking := b\<rparr>"
  let ?s = "projr (cell_simulation vol rates pt0 mb q b)"
  have after: "table_numbers (tables_after vol ?r pt) = table_numbers pt0"
    using table_numbers_after [of vol ?r pt] Cons.prems by (rule trans)
  note ih = Cons.IH [OF after, of "cr @ [total_cost ?s]" "pr @ [cpa ?s]" "mr @ [num_booked ?s]"]
  show ?case
    unfolding heatmap_row_step [OF Cons.prems assms(2,3)]
    using ih by simp
qed

lemma simulate_num_booked:
  "num_booked (simulate vol rates pt mb) = vol * response rates * qualification rates * booking rates"
  unfolding simulate_def Let_def by (simp only: sim_result.simps)

lemma heatmap_rows_cells:
  assumes "table_numbers pt = table_numbers pt0" and "no_reply pt0 = c # cs" and "0 \<le> mb"
  shows "fst (heatmap_rows vol rates mb qs bs m pt) =
      Inr \<lparr>cost_matrix = cost_matrix m
              @ map (\<lambda>q. map (\<lambda>b. total_cost (projr (cell_simulation vol rates pt0 mb q b))) bs) qs,
           cpa_matrix = cpa_matrix m
              @ map (\<lambda>q. map (\<lambda>b. cpa (projr (cell_simulation vol rates pt0 mb q b))) bs) qs,
           meetings_matrix = meetings_matrix m
              @ map (\<lambda>q. map (\<lambda>b. num_booked (projr (cell_simulation vol rates pt0 mb q b))) bs) qs\<rparr>"
  using assms(1)
proof (induction qs arbitrary: m pt)
  case Nil
  show ?case by simp
next
  case (Cons q qs)
  let ?A = "map (\<lambda>b. total_cost (projr (cell_simulation vol rates pt0 mb q b))) bs"
  let ?B = "map (\<lambda>b. cpa (projr (cell_simulation vol rates pt0 mb q b))) bs"
  let ?C = "map (\<lambda>b. num_booked (projr (cell_simulation vol rates pt0 mb q b))) bs"
  obtain res pt' where row: "heatmap_row vol rates mb q bs ([], [], []) pt = (res, pt')"
    by (metis surj_pair)
  from heatmap_row_cells [OF Cons.prems assms(2,3), of vol rates q bs "[]" "[]" "[]"]
  have res: "res = Inr (?A, ?B, ?C)" and after: "table_numbers pt' = table_numbers pt0"
    unfolding row by simp_all
  let ?m = "m\<lparr>cost_matrix := cost_matrix m @ [?A], cpa_matrix := cpa_matrix m @ [?B],
      meetings_matrix := meetings_matrix m @ [?C]\<rparr>"
  have step: "heatmap_rows vol rates mb (q # qs) bs m pt = heatmap_rows vol rates mb qs bs ?m pt'"
    unfolding heatmap_rows.simps row res by (simp only: prod.case sum.case)
  show ?case
    unfolding step using Cons.IH [OF after, of ?m] by simp
qed

subsection \<open>Claims\<close>

text \<open>
  C1. For every quantity above zero and every table, the tiered cost is the sum, over the
  tiers whose minimum is strictly below the quantity, taken in ascending order of the
  minimum, of (min(quantity, maximum) - minimum) times the unit price. For the tiers
  0 to 500 at 5.00 and 500 to 1500 at 3.80, the quantity 600 costs 2880.
\<close>

theorem C1_tiered_cost_sum:
  "(\<forall>q tiers_df. 0 < q \<longrightarrow>
      fst (calculate_tiered_cost q tiers_df) =
        (\<Sum>r\<leftarrow>filter (\<lambda>r. cell_value (Minimo r) < q) (sort_values tiers_df).
           (min q (cell_value (Maximo r)) - cell_value (Minimo r)) * cell_value (Valor r)))
   \<and> fst (calculate_tiered_cost 600 df_leads_two) = 2880"
proof (intro conjI allI impI)
  fix q :: real and tiers_df :: frame
  assume "0 < q"
  then have "q \<noteq> 0" by simp
  then show "fst (calculate_tiered_cost q tiers_df) =
      (\<Sum>r\<leftarrow>filter (\<lambda>r. cell_value (Minimo r) < q) (sort_values tiers_df).
         (min q (cell_value (Maximo r)) - cell_value (Minimo r)) * cell_value (Valor r))"
    by (simp add: cost_sorted tier_loop_sum tier_charge_def)
next
  show "fst (calculate_tiered_cost 600 df_leads_two) = 2880"
    by (simp add: cost_unsorted tier_loop_sum tier_charge_def df_leads_two_def)
qed

theorem C1_tiered_cost_sum_witness:
  "(0::real) < 600 \<and>
   fst (calculate_tiered_cost 600 df_leads_two) =
     (\<Sum>r\<leftarrow>filter (\<lambda>r. cell_value (Minimo r) < 600) (sort_values df_leads_two).
        (min 600 (cell_value (Maximo r)) - cell_value (Minimo r)) * cell_value (Valor r))
   \<and> (\<Sum>r\<leftarrow>filter (\<lambda>r. cell_value (Minimo r) < 600) (sort_values df_leads_two).
        (min 600 (cell_value (Maximo r)) - cell_value (Minimo r)) * cell_value (Valor r)) = 2880"
  using C1_tiered_cost_sum
  by (simp add: sort_values_def df_leads_two_def)

text \<open>
  C2. For every configuration whose no-reply table has its first row, the simulator returns
  a result with total\_cost = max(calculated\_cost, minimum\_billing), hence total\_cost
  is never below minimum\_billing; with calculated\_cost = 1000 and minimum\_billing = 1500
  the total is 1500 and the floor adjustment total\_cost - calculated\_cost is 500.
\<close>

theorem C2_minimum_billing:
  "\<exists>res. fst (run_simulation vol rates (pt\<lparr>no_reply := c # cs\<rparr>) mb) = Inr res
     \<and> total_cost res = max (calculated_cost res) mb
     \<and> mb \<le> total_cost res
     \<and> (calculated_cost res = 1000 \<and> mb = 1500 \<longrightarrow>
          total_cost res = 1500 \<and> total_cost res - calculated_cost res = 500)"
  by (simp add: run_simulation_rows [OF no_reply_upd_rows] simulate_def Let_def)

text \<open>
  The case of C2 at 5000 leads of which none replies, on the tables of the source:
  5000 times 0.20 is the calculated cost 1000, billed as 1500.
\<close>

theorem C2_minimum_billing_witness:
  "\<exists>res. fst (run_simulation 5000 rates_no_response source_tables 1500) = Inr res
     \<and> calculated_cost res = 1000 \<and> total_cost res = 1500
     \<and> total_cost res - calculated_cost res = 500"
proof -
  from C2_minimum_billing [where vol = 5000 and rates = rates_no_response and pt = source_tables
      and c = "FloatCell (20 / 100)" and cs = "[]" and mb = 1500]
  obtain res where res: "fst (run_simulation 5000 rates_no_response source_tables 1500) = Inr res"
    and floor: "calculated_cost res = 1000 \<and> (1500::real) = 1500 \<longrightarrow>
          total_cost res = 1500 \<and> total_cost res - calculated_cost res = 500"
    unfolding source_tables_upd by blast
  have "res = simulate 5000 rates_no_response source_tables 1500"
    using res by (simp add: run_simulation_rows [OF source_tables_rows])
  then have "calculated_cost res = 1000"
    by (simp add: simulate_def Let_def rates_no_response_def tier_cost_loop unit_price_def
        source_tables_def df_no_reply_def)
  with res floor show ?thesis by auto
qed

text \<open>
  C3. The funnel counts of a run are replies = total\_leads * response,
  no\_replies = total\_leads - replies, qualified = replies * qualification and
  booked = qualified * booking, exact products with no rounding; 2500 leads at rates 0.15,
  0.25 and 0.33 give 375 replies, 93.75 qualified and 30.9375 booked.
\<close>

theorem C3_funnel:
  "(\<exists>res. fst (run_simulation vol rates (pt\<lparr>no_reply := c # cs\<rparr>) mb) = Inr res
      \<and> num_replies res = vol * response rates
      \<and> num_no_replies res = vol - num_replies res
      \<and> num_qualified res = num_replies res * qualification rates
      \<and> num_booked res = num_qualified res * booking rates)
   \<and> (\<exists>res. fst (run_simulation 2500 rates_scenario_B source_tables 0) = Inr res
      \<and> num_replies res = 375
      \<and> num_qualified res = 9375 / 100
      \<and> num_booked res = 309375 / 10000)"
  by (simp add: run_simulation_rows [OF no_reply_upd_rows]
      run_simulation_rows [OF source_tables_rows] simulate_def Let_def rates_scenario_B_def)

text \<open>
  C8. A run returns cost per lead = total\_cost / total\_leads when total\_leads is above
  zero and 0 otherwise, and cost per acquisition = total\_cost / booked when booked is above
  zero and 0 otherwise; no run, on any tables, raises a division by zero.
\<close>

theorem C8_guarded_division:
  "(\<exists>res. fst (run_simulation vol rates (pt\<lparr>no_reply := c # cs\<rparr>) mb) = Inr res
      \<and> cpl res = (if vol > 0 then total_cost res / vol else 0)
      \<and> cpa res = (if num_booked res > 0 then total_cost res / num_booked res else 0))
   \<and> fst (run_simulation vol rates pt mb) \<noteq> Inl ZeroDivisionError"
proof
  show "\<exists>res. fst (run_simulation vol rates (pt\<lparr>no_reply := c # cs\<rparr>) mb) = Inr res
      \<and> cpl res = (if vol > 0 then total_cost res / vol else 0)
      \<and> cpa res = (if num_booked res > 0 then total_cost res / num_booked res else 0)"
    by (simp add: run_simulation_rows [OF no_reply_upd_rows] simulate_def Let_def)
next
  show "fst (run_simulation vol rates pt mb) \<noteq> Inl ZeroDivisionError"
  proof (cases "no_reply pt")
    case Nil
    then show ?thesis by (simp add: run_simulation_empty)
  next
    case (Cons c cs)
    then show ?thesis by (simp add: run_simulation_rows)
  qed
qed

text \<open>
  C10. With total\_leads = 0 and a minimum billing m of at least 0, the run returns all
  funnel counts 0, all four stage costs 0, calculated\_cost 0, total\_cost m, and both
  derived metrics 0.
\<close>

theorem C10_zero_volume:
  "0 \<le> m \<Longrightarrow>
   fst (run_simulation 0 rates (pt\<lparr>no_reply := c # cs\<rparr>) m) =
     Inr \<lparr>total_leads = 0, num_no_replies = 0, num_replies = 0, num_qualified = 0,
          num_booked = 0, cost_no_reply = 0, cost_replies = 0, cost_qualified = 0,
          cost_booked = 0, calculated_cost = 0, total_cost = m, cpl = 0, cpa = 0\<rparr>"
  by (simp add: run_simulation_rows [OF no_reply_upd_rows] simulate_def Let_def tier_cost_loop)

text \<open>The case of C10 on the tables of the source with a minimum billing of 300.\<close>

theorem C10_zero_volume_witness:
  "(0::real) \<le> 300 \<and>
   fst (run_simulation 0 rates_scenario_B source_tables 300) =
     Inr \<lparr>total_leads = 0, num_no_replies = 0, num_replies = 0, num_qualified = 0,
          num_booked = 0, cost_no_reply = 0, cost_replies = 0, cost_qualified = 0,
          cost_booked = 0, calculated_cost = 0, total_cost = 300, cpl = 0, cpa = 0\<rparr>"
  using C10_zero_volume [where m = 300 and rates = rates_scenario_B and pt = source_tables
      and c = "FloatCell (20 / 100)" and cs = "[]"]
  unfolding source_tables_upd by simp

text \<open>
  C6 as stated fails. On the table of one tier from 100 to 500 at 5.00 the quantity 200 is at
  most the first maximum, and costs (200 - 100) * 5 = 500, not 200 * 5 = 1000. On the table
  with tiers 0 to 500 at 5.00 and 100 to 600 at 3.00 it costs 1000 + 300 = 1300.
\<close>

theorem C6_counterexample:
  "sort_values tiers_from_100 = [row_from_100]
   \<and> 200 \<le> cell_value (Maximo row_from_100)
   \<and> fst (calculate_tiered_cost 200 tiers_from_100) = 500
   \<and> 200 * cell_value (Valor row_from_100) = 1000
   \<and> sort_values tiers_overlap = [row_first, row_overlap]
   \<and> 200 \<le> cell_value (Maximo row_first)
   \<and> fst (calculate_tiered_cost 200 tiers_overlap) = 1300
   \<and> 200 * cell_value (Valor row_first) = 1000"
  by (simp add: cost_unsorted tier_loop_sum tier_charge_def sort_values_def
      tiers_from_100_def row_from_100_def tiers_overlap_def row_first_def row_overlap_def)

text \<open>
  C6, amended. When the first tier after sorting has minimum 0, the quantity q lies between 0
  and that tier's maximum, and no later tier has its minimum below q, the cost is exactly
  q times the first tier's unit price.
\<close>

theorem C6_first_tier:
  assumes "sort_values tiers_df = t0 # rest"
    and "cell_value (Minimo t0) = 0"
    and "0 \<le> q" and "q \<le> cell_value (Maximo t0)"
    and "\<forall>t\<in>set rest. q \<le> cell_value (Minimo t)"
  shows "fst (calculate_tiered_cost q tiers_df) = q * cell_value (Valor t0)"
proof (cases "q = 0")
  case True
  then show ?thesis by (simp add: calculate_tiered_cost_def)
next
  case False
  have "(\<Sum>r\<leftarrow>rest. tier_part q r) = 0"
    using assms(5) by (induction rest) (simp_all add: tier_part_def)
  moreover have "tier_part q t0 = q * cell_value (Valor t0)"
    using False assms(2,3,4) by (simp add: tier_part_def tier_charge_def)
  ultimately show ?thesis
    using False by (simp add: cost_sorted assms(1) tier_loop_parts)
qed

theorem C6_first_tier_witness:
  "sort_values df_leads_two = row_first # [\<lparr>Minimo = IntCell 500, Maximo = IntCell 1500, Valor = FloatCell (38 / 10)\<rparr>]
   \<and> fst (calculate_tiered_cost 200 df_leads_two) = 1000"
proof -
  let ?r2 = "\<lparr>Minimo = IntCell 500, Maximo = IntCell 1500, Valor = FloatCell (38 / 10)\<rparr>"
  have s: "sort_values df_leads_two = row_first # [?r2]"
    by (simp add: sort_values_def df_leads_two_def row_first_def)
  have "fst (calculate_tiered_cost 200 df_leads_two) = 200 * cell_value (Valor row_first)"
    by (rule C6_first_tier [OF s]) (simp_all add: row_first_def)
  then show ?thesis using s by (simp add: row_first_def)
qed

text \<open>
  C7 as stated fails. The table of one tier with minimum 500, maximum 100 and the non-negative
  price 1 costs 0 at the quantity 400 and (100 - 500) * 1 = -400 at the quantity 600.
\<close>

theorem C7_counterexample:
  "0 \<le> cell_value (Valor row_inverted) \<and> (0::real) \<le> 400 \<and> (400::real) < 600
   \<and> fst (calculate_tiered_cost 400 tiers_inverted) = 0
   \<and> fst (calculate_tiered_cost 600 tiers_inverted) = - 400
   \<and> \<not> fst (calculate_tiered_cost 400 tiers_inverted) \<le> fst (calculate_tiered_cost 600 tiers_inverted)"
  by (simp add: cost_unsorted tier_loop_sum tier_charge_def tiers_inverted_def row_inverted_def)

text \<open>
  C7, amended. On a table whose unit prices are all non-negative and whose tiers all have
  their minimum at most their maximum, the cost is monotone: for 0 <= q1 < q2 the cost of q1
  is at most the cost of q2.
\<close>

theorem C7_monotone:
  assumes "\<forall>r\<in>set tiers_df. 0 \<le> cell_value (Valor r)"
    and "\<forall>r\<in>set tiers_df. cell_value (Minimo r) \<le> cell_value (Maximo r)"
    and "0 \<le> q1" and "q1 < q2"
  shows "fst (calculate_tiered_cost q1 tiers_df) \<le> fst (calculate_tiered_cost q2 tiers_df)"
proof -
  have q2: "q2 \<noteq> 0" using assms(3,4) by simp
  have c2: "fst (calculate_tiered_cost q2 tiers_df) = (\<Sum>r\<leftarrow>tiers_df. tier_part q2 r)"
    using q2 by (simp add: cost_unsorted tier_loop_parts)
  show ?thesis
  proof (cases "q1 = 0")
    case True
    have "0 \<le> (\<Sum>r\<leftarrow>tiers_df. tier_part q2 r)"
      by (rule sum_list_nonneg) (use assms(1,2) in \<open>auto intro: tier_part_nonneg\<close>)
    then show ?thesis using True c2 by (simp add: calculate_tiered_cost_def)
  next
    case False
    have "(\<Sum>r\<leftarrow>tiers_df. tier_part q1 r) \<le> (\<Sum>r\<leftarrow>tiers_df. tier_part q2 r)"
      by (rule sum_list_mono) (use assms(1,2,4) in \<open>auto intro: tier_part_mono\<close>)
    then show ?thesis using False c2 by (simp add: cost_unsorted tier_loop_parts)
  qed
qed

theorem C7_monotone_witness:
  "fst (calculate_tiered_cost 400 df_leads_two) \<le> fst (calculate_tiered_cost 600 df_leads_two)
   \<and> fst (calculate_tiered_cost 400 df_leads_two) = 2000
   \<and> fst (calculate_tiered_cost 600 df_leads_two) = 2880"
proof -
  have "fst (calculate_tiered_cost 400 df_leads_two) \<le> fst (calculate_tiered_cost 600 df_leads_two)"
    by (rule C7_monotone) (simp_all add: df_leads_two_def)
  then show ?thesis
    by (simp add: cost_unsorted tier_loop_sum tier_charge_def df_leads_two_def)
qed

text \<open>
  C4 as stated fails: nothing is rejected. The quantity -5 on the table of the source costs
  0, the tier with minimum 500 and maximum 100 costs -400 at the quantity 600, and the
  simulator returns a result, not an error, for -100 leads and for a table with that tier.
\<close>

theorem C4_counterexample:
  "fst (calculate_tiered_cost (- 5) df_leads) = 0
   \<and> fst (calculate_tiered_cost 600 tiers_inverted) = - 400
   \<and> \<not> isl (fst (run_simulation (- 100) rates_scenario_B source_tables 0))
   \<and> \<not> isl (fst (run_simulation 2500 rates_scenario_B tables_inverted 0))"
proof -
  have "no_reply tables_inverted = FloatCell (20 / 100) # []"
    by (simp add: tables_inverted_def source_tables_def df_no_reply_def)
  then have "\<not> isl (fst (run_simulation 2500 rates_scenario_B tables_inverted 0))"
    by (simp add: run_simulation_rows)
  moreover have "\<not> isl (fst (run_simulation (- 100) rates_scenario_B source_tables 0))"
    by (simp add: run_simulation_rows [OF source_tables_rows])
  moreover have "fst (calculate_tiered_cost (- 5) df_leads) = 0"
    by (simp add: cost_unsorted tier_loop_sum df_leads_def)
  moreover have "fst (calculate_tiered_cost 600 tiers_inverted) = - 400"
    by (simp add: cost_unsorted tier_loop_sum tier_charge_def tiers_inverted_def row_inverted_def)
  ultimately show ?thesis by simp
qed

text \<open>
  C4, amended. Tiered-cost evaluation validates nothing: every quantity other than zero,
  negative ones included, and every table, tiers with minimum at or above maximum included,
  is evaluated by the same accumulation, so a negative quantity costs 0 on a table whose
  minimums are all at least 0. The only error of the simulator is the IndexError of a
  no-reply table without rows; it is raised before any evaluation and reaches the caller.
\<close>

theorem C4_no_validation:
  "(q \<noteq> 0 \<longrightarrow>
      fst (calculate_tiered_cost q tiers_df) =
        (\<Sum>r\<leftarrow>tiers_df. if cell_value (Minimo r) < q
           then (min q (cell_value (Maximo r)) - cell_value (Minimo r)) * cell_value (Valor r)
           else 0))
   \<and> (q < 0 \<and> (\<forall>r\<in>set tiers_df. 0 \<le> cell_value (Minimo r)) \<longrightarrow>
        fst (calculate_tiered_cost q tiers_df) = 0)
   \<and> (fst (run_simulation vol rates pt mb) = Inl e \<longrightarrow> e = IndexError \<and> no_reply pt = [])
   \<and> (no_reply pt = [] \<longrightarrow> run_simulation vol rates pt mb = (Inl IndexError, pt))"
proof (intro conjI impI)
  assume "q \<noteq> 0"
  then show "fst (calculate_tiered_cost q tiers_df) =
        (\<Sum>r\<leftarrow>tiers_df. if cell_value (Minimo r) < q
           then (min q (cell_value (Maximo r)) - cell_value (Minimo r)) * cell_value (Valor r)
           else 0)"
    by (simp add: cost_unsorted tier_loop_parts) (simp only: tier_part_def tier_charge_def)
next
  assume "q < 0 \<and> (\<forall>r\<in>set tiers_df. 0 \<le> cell_value (Minimo r))"
  then show "fst (calculate_tiered_cost q tiers_df) = 0"
    by (simp add: negative_quantity_cost)
next
  assume "fst (run_simulation vol rates pt mb) = Inl e"
  then show "e = IndexError" by (simp add: run_simulation_errors)
next
  assume "fst (run_simulation vol rates pt mb) = Inl e"
  then show "no_reply pt = []" using run_simulation_errors by blast
next
  assume "no_reply pt = []"
  then show "run_simulation vol rates pt mb = (Inl IndexError, pt)"
    by (rule run_simulation_empty)
qed

text \<open>The cases of C4: the quantity -5 on the table of the source, and a run on an empty no-reply table.\<close>

theorem C4_no_validation_witness:
  "(- 5::real) \<noteq> 0 \<and> (- 5::real) < 0
   \<and> map (\<lambda>r. cell_value (Minimo r)) df_leads = [0, 500, 1500, 2000, 3000]
   \<and> fst (calculate_tiered_cost (- 5) df_leads) = 0
   \<and> no_reply tables_empty_no_reply = []
   \<and> fst (run_simulation 2500 rates_scenario_B tables_empty_no_reply 0) = Inl IndexError
   \<and> run_simulation 2500 rates_scenario_B tables_empty_no_reply 0
       = (Inl IndexError, tables_empty_no_reply)"
proof -
  have mins: "\<forall>r\<in>set df_leads. 0 \<le> cell_value (Minimo r)"
    by (simp add: df_leads_def)
  have empty: "no_reply tables_empty_no_reply = []"
    by (simp add: tables_empty_no_reply_def)
  note th = C4_no_validation [where q = "- 5" and tiers_df = df_leads and vol = 2500
      and rates = rates_scenario_B and pt = tables_empty_no_reply and mb = 0
      and e = IndexError]
  from th mins have "fst (calculate_tiered_cost (- 5) df_leads) = 0" by simp
  moreover from th empty
  have "run_simulation 2500 rates_scenario_B tables_empty_no_reply 0
       = (Inl IndexError, tables_empty_no_reply)" by blast
  moreover have "map (\<lambda>r. cell_value (Minimo r)) df_leads = [0, 500, 1500, 2000, 3000]"
    by (simp add: df_leads_def)
  ultimately show ?thesis using empty by simp
qed

text \<open>
  C5 as stated fails. Evaluating the quantity 600 on the first two tiers of the source leaves
  the caller's table with float cells where it had integer cells, and one run of the
  simulator on the tables of the source leaves the table for leads that replied changed.
\<close>

theorem C5_counterexample:
  "snd (calculate_tiered_cost 600 df_leads_two) \<noteq> df_leads_two
   \<and> snd (run_simulation 2500 rates_scenario_B source_tables 0) \<noteq> source_tables"
proof -
  have "snd (calculate_tiered_cost 600 df_leads_two) \<noteq> df_leads_two"
    by (simp add: frame_after df_leads_two_def convert_row_def)
  moreover have "snd (run_simulation 2500 rates_scenario_B source_tables 0)
      = tables_after 2500 rates_scenario_B source_tables"
    by (simp add: run_simulation_rows [OF source_tables_rows])
  moreover have "leads (tables_after 2500 rates_scenario_B source_tables) \<noteq> leads source_tables"
    by (simp add: tables_after_def frame_after rates_scenario_B_def source_tables_def
        df_leads_def convert_row_def)
  ultimately show ?thesis by auto
qed

text \<open>
  C5, amended. Evaluation with a quantity other than zero converts the three columns of the
  caller's table to float in place and changes nothing else; with the quantity zero it
  leaves the table as it is. No call changes a number, the order or the count of the rows of
  any table, and the no-reply table is left as it is.
\<close>

theorem C5_tables_after:
  "snd (calculate_tiered_cost q tiers_df) = (if q = 0 then tiers_df else map convert_row tiers_df)
   \<and> numbers (snd (calculate_tiered_cost q tiers_df)) = numbers tiers_df
   \<and> table_numbers (snd (run_simulation vol rates pt mb)) = table_numbers pt
   \<and> no_reply (snd (run_simulation vol rates pt mb)) = no_reply pt"
proof (intro conjI)
  show "snd (calculate_tiered_cost q tiers_df)
      = (if q = 0 then tiers_df else map convert_row tiers_df)"
    by (rule frame_after)
  show "numbers (snd (calculate_tiered_cost q tiers_df)) = numbers tiers_df"
    by (rule numbers_after)
  show same: "table_numbers (snd (run_simulation vol rates pt mb)) = table_numbers pt"
    by (cases "no_reply pt")
      (simp_all add: run_simulation_empty run_simulation_rows table_numbers_after)
  show "no_reply (snd (run_simulation vol rates pt mb)) = no_reply pt"
    using same by (simp add: table_numbers_def)
qed

text \<open>
  C9. At a fixed lead volume and a minimum billing of at least 0 (the input widget admits no
  other), the sweep returns three matrices with one row per qualification rate 0.00, 0.05,
  ..., 0.35 and one column per booking rate 0.00, 0.05, ..., 0.50, both ascending. The cell
  for a pair of rates holds the total cost, the cost per acquisition and the booked count of
  the simulation run on a copy of the base rates with those two rates replaced; that
  simulation books volume * response * qualification * booking meetings and its cost per
  acquisition is 0 when it books none.
\<close>

theorem C9_grid_sweep:
  assumes "0 \<le> mb"
  shows "fst (sensitivity_matrices vol rates (pt\<lparr>no_reply := c # cs\<rparr>) mb) =
      Inr \<lparr>cost_matrix = map (\<lambda>q. map (\<lambda>b.
               total_cost (projr (cell_simulation vol rates (pt\<lparr>no_reply := c # cs\<rparr>) mb q b)))
               booking_rates_heatmap) qual_rates_heatmap,
           cpa_matrix = map (\<lambda>q. map (\<lambda>b.
               cpa (projr (cell_simulation vol rates (pt\<lparr>no_reply := c # cs\<rparr>) mb q b)))
               booking_rates_heatmap) qual_rates_heatmap,
           meetings_matrix = map (\<lambda>q. map (\<lambda>b.
               num_booked (projr (cell_simulation vol rates (pt\<lparr>no_reply := c # cs\<rparr>) mb q b)))
               booking_rates_heatmap) qual_rates_heatmap\<rparr>
    \<and> qual_rates_heatmap = [0, 5 / 100, 10 / 100, 15 / 100, 20 / 100, 25 / 100, 30 / 100, 35 / 100]
    \<and> booking_rates_heatmap = [0, 5 / 100, 10 / 100, 15 / 100, 20 / 100, 25 / 100, 30 / 100,
         35 / 100, 40 / 100, 45 / 100, 50 / 100]
    \<and> (\<exists>res. cell_simulation vol rates (pt\<lparr>no_reply := c # cs\<rparr>) mb q b = Inr res
          \<and> num_booked res = vol * response rates * q * b
          \<and> cpa res = (if num_booked res > 0 then total_cost res / num_booked res else 0))"
proof (intro conjI)
  let ?pt = "pt\<lparr>no_reply := c # cs\<rparr>"
  have rows: "no_reply ?pt = c # cs" by simp
  note hm = heatmap_rows_cells [where pt = ?pt and pt0 = ?pt and vol = vol and rates = rates
      and qs = qual_rates_heatmap and bs = booking_rates_heatmap
      and m = "\<lparr>cost_matrix = [], cpa_matrix = [], meetings_matrix = []\<rparr>", OF refl rows assms]
  show "fst (sensitivity_matrices vol rates ?pt mb) =
      Inr \<lparr>cost_matrix = map (\<lambda>q. map (\<lambda>b.
               total_cost (projr (cell_simulation vol rates ?pt mb q b)))
               booking_rates_heatmap) qual_rates_heatmap,
           cpa_matrix = map (\<lambda>q. map (\<lambda>b.
               cpa (projr (cell_simulation vol rates ?pt mb q b)))
               booking_rates_heatmap) qual_rates_heatmap,
           meetings_matrix = map (\<lambda>q. map (\<lambda>b.
               num_booked (projr (cell_simulation vol rates ?pt mb q b)))
               booking_rates_heatmap) qual_rates_heatmap\<rparr>"
    unfolding sensitivity_matrices_def using hm by simp
  show "qual_rates_heatmap = [0, 5 / 100, 10 / 100, 15 / 100, 20 / 100, 25 / 100, 30 / 100, 35 / 100]"
    by (simp add: qual_rates_heatmap_def py_range.simps)
  show "booking_rates_heatmap = [0, 5 / 100, 10 / 100, 15 / 100, 20 / 100, 25 / 100, 30 / 100,
         35 / 100, 40 / 100, 45 / 100, 50 / 100]"
    by (simp add: booking_rates_heatmap_def py_range.simps)
  let ?s = "simulate vol (rates\<lparr>qualification := q, booking := b\<rparr>) ?pt mb"
  have "cell_simulation vol rates ?pt mb q b = Inr ?s"
    by (rule cell_simulation_rows [OF rows])
  moreover have "num_booked ?s = vol * response rates * q * b"
    by (simp add: simulate_num_booked)
  moreover have "cpa ?s = (if num_booked ?s > 0 then total_cost ?s / num_booked ?s else 0)"
    by (rule simulate_cpa)
  ultimately show "\<exists>res. cell_simulation vol rates ?pt mb q b = Inr res
          \<and> num_booked res = vol * response rates * q * b
          \<and> cpa res = (if num_booked res > 0 then total_cost res / num_booked res else 0)"
    by blast
qed

text \<open>The case of C9 at 2500 leads on the tables and rates of the source, with no minimum billing:
  8 rows of 11 cells, and 28.125 meetings at qualification 0.25 and booking 0.30.\<close>

theorem C9_grid_sweep_witness:
  "(0::real) \<le> 0
   \<and> (\<exists>m. fst (sensitivity_matrices 2500 rates_scenario_B source_tables 0) = Inr m
        \<and> length (cost_matrix m) = 8
        \<and> length (cpa_matrix m ! 5) = 11
        \<and> meetings_matrix m ! 5 ! 6 = 28125 / 1000)"
proof -
  have h: "(0::real) \<le> 0" by simp
  note th = C9_grid_sweep [OF h, where vol = 2500 and rates = rates_scenario_B
      and pt = source_tables and c = "FloatCell (20 / 100)" and cs = "[]"
      and q = "25 / 100" and b = "30 / 100", unfolded source_tables_upd]
  let ?cell = "cell_simulation 2500 rates_scenario_B source_tables 0 (25 / 100) (30 / 100)"
  from th obtain res where res: "?cell = Inr res"
    and booked: "num_booked res = 2500 * response rates_scenario_B * (25 / 100) * (30 / 100)"
    by blast
  have cell: "num_booked (projr ?cell) = 28125 / 1000"
    unfolding res using booked by (simp add: rates_scenario_B_def)
  from th have qs: "qual_rates_heatmap
      = [0, 5 / 100, 10 / 100, 15 / 100, 20 / 100, 25 / 100, 30 / 100, 35 / 100]"
    and bs: "booking_rates_heatmap = [0, 5 / 100, 10 / 100, 15 / 100, 20 / 100, 25 / 100,
         30 / 100, 35 / 100, 40 / 100, 45 / 100, 50 / 100]"
    by blast+
  let ?m = "\<lparr>cost_matrix = map (\<lambda>q. map (\<lambda>b.
               total_cost (projr (cell_simulation 2500 rates_scenario_B source_tables 0 q b)))
               booking_rates_heatmap) qual_rates_heatmap,
           cpa_matrix = map (\<lambda>q. map (\<lambda>b.
               cpa (projr (cell_simulation 2500 rates_scenario_B source_tables 0 q b)))
               booking_rates_heatmap) qual_rates_heatmap,
           meetings_matrix = map (\<lambda>q. map (\<lambda>b.
               num_booked (projr (cell_simulation 2500 rates_scenario_B source_tables 0 q b)))
               booking_rates_heatmap) qual_rates_heatmap\<rparr>"
  from th have m: "fst (sensitivity_matrices 2500 rates_scenario_B source_tables 0) = Inr ?m"
    by (rule conjunct1)
  have l1: "length (cost_matrix ?m) = 8"
    by (simp add: qs)
  have l2: "length (cpa_matrix ?m ! 5) = 11"
    by (simp add: qs bs)
  have "meetings_matrix ?m ! 5 ! 6 = num_booked (projr ?cell)"
    by (simp add: qs bs)
  then have l3: "meetings_matrix ?m ! 5 ! 6 = 28125 / 1000"
    using cell by (rule trans)
  from m l1 l2 l3 have "\<exists>m. fst (sensitivity_matrices 2500 rates_scenario_B source_tables 0) = Inr m
        \<and> length (cost_matrix m) = 8
        \<and> length (cpa_matrix m ! 5) = 11
        \<and> meetings_matrix m ! 5 ! 6 = 28125 / 1000"
    by blast
  with h show ?thesis by (rule conjI)
qed

end
